theory Spec2Isabelle
  imports Complex_Main
begin

section \<open>JavaScript strings\<close>

text \<open>
  Strings are \<open>char list\<close>. Only the string operations that the embedded functions
  use are defined: \<open>toLowerCase\<close> (on the ASCII letters, which is all a tag name holds),
  \<open>startsWith\<close> and \<open>str_includes\<close> (\<open>s.indexOf(p) !== -1\<close>).
\<close>

definition toLowerChar :: "char \<Rightarrow> char" where
  "toLowerChar c =
     (case map_of (zip ''ABCDEFGHIJKLMNOPQRSTUVWXYZ'' ''abcdefghijklmnopqrstuvwxyz'') c of
        Some l \<Rightarrow> l
      | None \<Rightarrow> c)"

definition toLowerCase :: "string \<Rightarrow> string" where
  "toLowerCase s = map toLowerChar s"

fun startsWith :: "string \<Rightarrow> string \<Rightarrow> bool" where
  "startsWith s [] = True"
| "startsWith [] (p # ps) = False"
| "startsWith (c # cs) (p # ps) = (c = p \<and> startsWith cs ps)"

fun str_includes :: "string \<Rightarrow> string \<Rightarrow> bool" where
  "str_includes [] p = startsWith [] p"
| "str_includes (c # cs) p = (startsWith (c # cs) p \<or> str_includes cs p)"

text \<open>
  \<open>s.split(/\s+/)\<close>: every maximal run of whitespace is one separator, so a string
  that starts or ends with whitespace yields an empty first or last piece, and the empty
  string yields one empty piece. Whitespace is the ASCII part of the class \<open>\s\<close>.
\<close>

definition isWhitespace :: "char \<Rightarrow> bool" where
  "isWhitespace c = (c \<in> set [CHR 0x20, CHR 0x09, CHR 0x0A, CHR 0x0B, CHR 0x0C, CHR 0x0D])"

function jsSplitWs :: "string \<Rightarrow> string list" where
  "jsSplitWs [] = [[]]"
| "jsSplitWs (c # cs) =
     (if isWhitespace c
      then [] # jsSplitWs (dropWhile isWhitespace cs)
      else (case jsSplitWs cs of [] \<Rightarrow> [[c]] | w # ws \<Rightarrow> (c # w) # ws))"
  by pat_completeness auto
termination
  by (relation "measure length") (auto simp: le_imp_less_Suc length_dropWhile_le)

text \<open>\<open>pieces.join(sep)\<close>.\<close>

fun joinWith :: "string \<Rightarrow> string list \<Rightarrow> string" where
  "joinWith sep [] = []"
| "joinWith sep [s] = s"
| "joinWith sep (s # t # rest) = s @ sep @ joinWith sep (t # rest)"

section \<open>JavaScript numbers\<close>

text \<open>
  A number is a real, \<open>NaN\<close> or one of the two infinities; the rounding of IEEE doubles
  is not part of the model. Every comparison with \<open>NaN\<close> is false.
\<close>

datatype jsNumber = Num real | NaN | PosInfinity | NegInfinity

definition numLess :: "jsNumber \<Rightarrow> real \<Rightarrow> bool" where
  "numLess n bound = (case n of Num r \<Rightarrow> r < bound | NegInfinity \<Rightarrow> True | NaN \<Rightarrow> False | PosInfinity \<Rightarrow> False)"

definition numAtLeast :: "jsNumber \<Rightarrow> real \<Rightarrow> bool" where
  "numAtLeast n bound = (case n of Num r \<Rightarrow> r \<ge> bound | PosInfinity \<Rightarrow> True | NaN \<Rightarrow> False | NegInfinity \<Rightarrow> False)"

text \<open>
  \<open>array[n]\<close>: the element at position \<open>n\<close> when \<open>n\<close> is an integer from 0 up to the
  length of the array, and \<open>undefined\<close> for every other number.
\<close>

definition arrayAt :: "'a list \<Rightarrow> jsNumber \<Rightarrow> 'a option" where
  "arrayAt xs n =
     (case n of
        Num r \<Rightarrow> if r = of_int \<lfloor>r\<rfloor> \<and> 0 \<le> r \<and> r < real (length xs) then Some (xs ! nat \<lfloor>r\<rfloor>) else None
      | NaN \<Rightarrow> None
      | PosInfinity \<Rightarrow> None
      | NegInfinity \<Rightarrow> None)"

text \<open>
  The text of a number in a template literal: the decimal digits of an integer, and for a
  number with a fractional part its decimal expansion, cut after 17 fractional digits.
\<close>

fun digits :: "nat \<Rightarrow> string" where
  "digits n = (if n < 10 then [''0123456789'' ! n] else digits (n div 10) @ [''0123456789'' ! (n mod 10)])"

fun fractionDigits :: "nat \<Rightarrow> real \<Rightarrow> string" where
  "fractionDigits 0 r = []"
| "fractionDigits (Suc n) r =
     (if r = 0 then []
      else (''0123456789'' ! nat \<lfloor>r * 10\<rfloor>) # fractionDigits n (r * 10 - of_int \<lfloor>r * 10\<rfloor>))"

definition numberText :: "jsNumber \<Rightarrow> string" where
  "numberText n =
     (case n of
        NaN \<Rightarrow> ''NaN''
      | PosInfinity \<Rightarrow> ''Infinity''
      | NegInfinity \<Rightarrow> ''-Infinity''
      | Num r \<Rightarrow>
          (if r < 0 then ''-'' else []) @ digits (nat \<lfloor>\<bar>r\<bar>\<rfloor>)
          @ (if \<bar>r\<bar> = of_int \<lfloor>\<bar>r\<bar>\<rfloor> then []
             else ''.'' @ fractionDigits 17 (\<bar>r\<bar> - of_int \<lfloor>\<bar>r\<bar>\<rfloor>)))"

definition dquote :: string where
  "dquote = [CHR 0x22]"

definition apostrophe :: string where
  "apostrophe = [CHR 0x27]"

section \<open>Formatting the choices of a prompt\<close>

text \<open>
  \<open>formatChoices\<close> (format\_prompts.ts). The candidate ids are numbers; the parameter \<open>id\<close>
  of the two callbacks is \<open>candidateId\<close> here. \<open>throw new Error(msg)\<close> is the value
  \<open>Inl (Error msg)\<close>. The callback of \<open>map\<close> destructures \<open>elements[id]\<close>, which raises a
  \<open>TypeError\<close> when that is \<open>undefined\<close>; the first id at which this happens ends the call.
\<close>

type_synonym StrTriple = "string \<times> string \<times> string"
type_synonym StrPair = "string \<times> string"

datatype error = Error string | TypeError

definition formatChoice :: "StrTriple list \<Rightarrow> jsNumber \<Rightarrow> error + StrPair" where
  "formatChoice elements candidateId =
     (case arrayAt elements candidateId of
        None \<Rightarrow> Inl TypeError
      | Some (description, tagAndRoleType, tagName) \<Rightarrow>
          (let descriptionSplit = jsSplitWs description;
               possiblyAbbrevDesc =
                 (if ''select'' \<noteq> tagName \<and> length descriptionSplit \<ge> 30
                  then joinWith '' '' (take 29 descriptionSplit) @ ''...''
                  else description);
               abbreviatedHtml = ''<'' @ tagAndRoleType @ '' id='' @ dquote @ numberText candidateId @ dquote @ ''>''
                                  @ possiblyAbbrevDesc @ ''</'' @ tagName @ ''>''
           in Inr (numberText candidateId, abbreviatedHtml)))"

fun mapChoices :: "StrTriple list \<Rightarrow> jsNumber list \<Rightarrow> error + StrPair list" where
  "mapChoices elements [] = Inr []"
| "mapChoices elements (candidateId # rest) =
     (case formatChoice elements candidateId of
        Inl err \<Rightarrow> Inl err
      | Inr pair \<Rightarrow> (case mapChoices elements rest of Inl err \<Rightarrow> Inl err | Inr pairs \<Rightarrow> Inr (pair # pairs)))"

definition formatChoices :: "StrTriple list \<Rightarrow> jsNumber list \<Rightarrow> error + StrPair list" where
  "formatChoices elements candidateIds =
     (let badCandidateIds =
            filter (\<lambda>candidateId. numLess candidateId 0 \<or> numAtLeast candidateId (real (length elements)))
              candidateIds in
      if length badCandidateIds > 0
      then Inl (Error (''out of the candidate id'' @ apostrophe @ ''s ['' @ joinWith '','' (map numberText candidateIds)
                        @ ''], the id'' @ apostrophe @ ''s ['' @ joinWith '','' (map numberText badCandidateIds)
                        @ ''] were out of range''))
      else mapChoices elements candidateIds)"

section \<open>The page as the host runtime shows it\<close>

text \<open>
  An element handle is an opaque token compared by identity. A root node is a document or
  the shadow root hosted by an element. Numbers are mathematical reals: the rounding of
  IEEE doubles is not part of the model.
\<close>

type_synonym elem = nat
type_synonym document = nat

datatype rootNode = Document document | ShadowRoot elem

record DOMRect =
  rect_x :: real
  rect_y :: real
  rect_width :: real
  rect_height :: real

record CSSStyleDeclaration =
  css_display :: string
  css_visibility :: string
  css_height :: string
  css_width :: string
  css_opacity :: string

text \<open>
  \<open>IframeNode\<close> (IframeTree.ts): the embedding iframe element (\<open>null\<close> for the top-level
  document), the accumulated offset from the top viewport, and the nodes of the nested
  frames. Its \<open>window\<close> and \<open>parent\<close> fields are not read by the functions embedded here.
\<close>

datatype IframeNode =
  IframeNode (iframe: "elem option") (coordsOffsetFromViewport: "real \<times> real")
    (children: "IframeNode list")

text \<open>A host property read either yields a value or raises an exception with a name.\<close>

datatype 'a access = Returns 'a | Throws string

text \<open>
  The record \<open>page\<close> is one static snapshot of the rendered page: the properties of
  element objects (\<open>el_\<dots>\<close>), the capabilities of \<open>DomWrapper\<close>, and the results
  of code that is not embedded because it lives outside the source at hand or is not the
  subject of a property: the \<open>get-xpath\<close> library (\<open>getXPath\<close>), \<open>IframeTree\<close>
  (\<open>getIframePathForElement\<close>, the tree built by \<open>new IframeTree(window)\<close>), the type
  guard \<open>isInputElement\<close>, the description generator (\<open>getElementDescription\<close>), and the
  hit-testing oracle \<open>actualElementFromPoint\<close>, taken as an arbitrary function of the
  query point and the search context. The root that \<open>fetchElementsByCss\<close> takes is a
  document, a shadow root or \<open>null\<close>; what the wrapper yields for \<open>null\<close> is its own
  affair. Logging is left out everywhere.
\<close>

record page =
  el_hidden :: "elem \<Rightarrow> bool"
  el_tagName :: "elem \<Rightarrow> string"
  el_hasOpenShadowRoot :: "elem \<Rightarrow> bool"
  el_children :: "elem \<Rightarrow> elem list"
  el_contains :: "elem \<Rightarrow> elem \<Rightarrow> bool"
  el_getRootNode :: "elem \<Rightarrow> rootNode"
  el_getAttribute :: "elem \<Rightarrow> string \<Rightarrow> string option"
  el_onclick :: "elem \<Rightarrow> bool"
  el_type :: "elem \<Rightarrow> string"
  el_ariaDisabled :: "elem \<Rightarrow> string option"
  el_disabled :: "elem \<Rightarrow> bool option"
  el_readOnly :: "elem \<Rightarrow> bool option"
  isInputElement :: "elem \<Rightarrow> bool"
  getComputedStyle :: "elem \<Rightarrow> CSSStyleDeclaration"
  grabClientBoundingRect :: "elem \<Rightarrow> DOMRect"
  getViewportInfo :: "real \<times> real"
  fetchElementsByCss :: "string \<Rightarrow> rootNode option \<Rightarrow> elem list"
  actualElementFromPoint :: "real \<Rightarrow> real \<Rightarrow> rootNode option \<Rightarrow> elem option"
  getXPath :: "elem \<Rightarrow> string"
  getIframePathForElement :: "elem \<Rightarrow> elem option list option"
  getElementDescription :: "elem \<Rightarrow> string option"
  contentDocument :: "elem \<Rightarrow> document option access"
  contentWindowDocument :: "elem \<Rightarrow> document option access"
  documentElementOuterHTML :: "document \<Rightarrow> string access"
  topDocument :: document
  newIframeTree :: IframeNode

text \<open>\<open>element.shadowRoot\<close>: the open shadow root the element hosts, or \<open>null\<close>.\<close>

definition shadowRoot :: "page \<Rightarrow> elem \<Rightarrow> rootNode option" where
  "shadowRoot pg element = (if el_hasOpenShadowRoot pg element then Some (ShadowRoot element) else None)"

text \<open>
  \<open>node.contains(other)\<close>: \<open>other\<close> is the node or one of its descendants;
  \<open>contains(null)\<close> is \<open>false\<close>.
\<close>

definition contains :: "page \<Rightarrow> elem \<Rightarrow> elem option \<Rightarrow> bool" where
  "contains pg node other = (case other of None \<Rightarrow> False | Some otherElem \<Rightarrow> el_contains pg node otherElem)"

section \<open>Access to embedded documents\<close>

text \<open>
  \<open>getIframeContent\<close>: the body of the \<open>try\<close> reads \<open>iframe.contentDocument\<close>, falls back
  to \<open>iframe.contentWindow?.document\<close>, and touches \<open>documentElement.outerHTML\<close> of the
  document found; whatever is raised there is caught and \<open>null\<close> is returned.
\<close>

definition iframeContentTry :: "page \<Rightarrow> elem \<Rightarrow> document option access" where
  "iframeContentTry pg iframeElem =
     (case contentDocument pg iframeElem of
        Throws err \<Rightarrow> Throws err
      | Returns (Some d) \<Rightarrow>
          (case documentElementOuterHTML pg d of Throws err \<Rightarrow> Throws err | Returns html \<Rightarrow> Returns (Some d))
      | Returns None \<Rightarrow>
          (case contentWindowDocument pg iframeElem of
             Throws err \<Rightarrow> Throws err
           | Returns None \<Rightarrow> Returns None
           | Returns (Some d) \<Rightarrow>
               (case documentElementOuterHTML pg d of Throws err \<Rightarrow> Throws err | Returns html \<Rightarrow> Returns (Some d))))"

definition getIframeContent :: "page \<Rightarrow> elem \<Rightarrow> document option" where
  "getIframeContent pg iframeElem =
     (case iframeContentTry pg iframeElem of
        Returns iframeDoc \<Rightarrow> iframeDoc
      | Throws err \<Rightarrow> None)"

section \<open>Visibility analysis\<close>

definition isFullyOutsideViewport :: "page \<Rightarrow> elem \<Rightarrow> IframeNode \<Rightarrow> bool" where
  "isFullyOutsideViewport pg element iframeNode =
     (let elemRect = grabClientBoundingRect pg element;
          elemXRelToViewport = rect_x elemRect + fst (coordsOffsetFromViewport iframeNode);
          elemYRelToViewport = rect_y elemRect + snd (coordsOffsetFromViewport iframeNode);
          vw = fst (getViewportInfo pg);
          vh = snd (getViewportInfo pg)
      in elemXRelToViewport + rect_width elemRect \<le> 0 \<or> elemYRelToViewport + rect_height elemRect \<le> 0
         \<or> elemXRelToViewport \<ge> vw \<or> elemYRelToViewport \<ge> vh)"

text \<open>
  The loop of \<open>isBuriedInBackground\<close>: \<open>for (i = 0; i < queryPoints.length && isBuried; i++)\<close>.
\<close>

fun buriedLoop :: "page \<Rightarrow> elem \<Rightarrow> rootNode option \<Rightarrow> (real \<times> real) list \<Rightarrow> bool \<Rightarrow> bool" where
  "buriedLoop pg element searchContext [] isBuried = isBuried"
| "buriedLoop pg element searchContext (queryPoint # rest) isBuried =
     (if \<not> isBuried then isBuried
      else
        (let foregroundElemAtQueryPoint =
               actualElementFromPoint pg (fst queryPoint) (snd queryPoint) searchContext
         in buriedLoop pg element searchContext rest
              (if contains pg element foregroundElemAtQueryPoint then False else isBuried)))"

definition buriedQueryPoints :: "DOMRect \<Rightarrow> (real \<times> real) list" where
  "buriedQueryPoints boundRect =
     [(rect_x boundRect + 1, rect_y boundRect + 1),
      (rect_x boundRect + rect_width boundRect - 1, rect_y boundRect + 1),
      (rect_x boundRect + 1, rect_y boundRect + rect_height boundRect - 1),
      (rect_x boundRect + rect_width boundRect - 1, rect_y boundRect + rect_height boundRect - 1),
      (rect_x boundRect + rect_width boundRect / 2, rect_y boundRect + rect_height boundRect / 2)]"

definition buriedSearchContext :: "page \<Rightarrow> IframeNode \<Rightarrow> rootNode option" where
  "buriedSearchContext pg iframeNode =
     (case iframe iframeNode of
        None \<Rightarrow> None
      | Some iframeElem \<Rightarrow>
          (case getIframeContent pg iframeElem of
             Some iframeContents \<Rightarrow> Some (Document iframeContents)
           | None \<Rightarrow> None))"

definition isBuriedInBackground :: "page \<Rightarrow> elem \<Rightarrow> IframeNode \<Rightarrow> bool" where
  "isBuriedInBackground pg element iframeNode =
     (let boundRect = grabClientBoundingRect pg element in
      if rect_width boundRect = 0 \<or> rect_height boundRect = 0 then False
      else
        (let tag = toLowerCase (el_tagName pg element) in
         if tag = ''select'' \<or> (isInputElement pg element \<and> el_type pg element = ''checkbox'') then False
         else buriedLoop pg element (buriedSearchContext pg iframeNode) (buriedQueryPoints boundRect) True))"

text \<open>
  \<open>calcIsHidden\<close> calls itself on the children of an element; the first argument bounds
  the depth of these nested calls, and \<open>None\<close> is the value of a call that needs more.
  \<open>anyChildVisible\<close> is the \<open>for (const child of element.children)\<close> loop, which
  stops at the first child that is not hidden.
\<close>

fun anyChildVisible :: "(elem \<Rightarrow> bool option) \<Rightarrow> elem list \<Rightarrow> bool option" where
  "anyChildVisible isHiddenFn [] = Some False"
| "anyChildVisible isHiddenFn (child # rest) =
     (case isHiddenFn child of
        None \<Rightarrow> None
      | Some childHidden \<Rightarrow> if \<not> childHidden then Some True else anyChildVisible isHiddenFn rest)"

fun calcIsHidden :: "nat \<Rightarrow> page \<Rightarrow> elem \<Rightarrow> IframeNode \<Rightarrow> bool \<Rightarrow> bool option" where
  "calcIsHidden 0 pg element iframeNode isDocHostElem = None"
| "calcIsHidden (Suc fuel) pg element iframeNode isDocHostElem =
     (let elemComputedStyle = getComputedStyle pg element;
          elemBoundRect = grabClientBoundingRect pg element;
          seems0 = (el_hidden pg element \<or> css_display elemComputedStyle = ''none''
                     \<or> css_visibility elemComputedStyle = ''hidden'');
          seems1 = (if shadowRoot pg element = None
                    then seems0 \<or> css_height elemComputedStyle = ''0px''
                           \<or> css_width elemComputedStyle = ''0px''
                           \<or> rect_width elemBoundRect = 0 \<or> rect_height elemBoundRect = 0
                    else seems0);
          seems2 = (if toLowerCase (el_tagName pg element) \<noteq> ''input''
                    then seems1 \<or> css_height elemComputedStyle = ''1px''
                           \<or> css_width elemComputedStyle = ''1px''
                           \<or> css_opacity elemComputedStyle = ''0''
                    else seems1);
          seems3 = (if \<not> seems2 \<and> \<not> isDocHostElem
                    then (if \<not> isFullyOutsideViewport pg element iframeNode
                          then isBuriedInBackground pg element iframeNode
                          else seems2)
                    else seems2)
      in if seems3 \<and> str_includes (css_display elemComputedStyle) ''inline''
         then (case anyChildVisible (\<lambda>child. calcIsHidden fuel pg child iframeNode False)
                      (el_children pg element) of
                 None \<Rightarrow> None
               | Some foundVisibleChild \<Rightarrow> Some (\<not> foundVisibleChild))
         else Some seems3)"

section \<open>Path resolution\<close>

text \<open>
  \<open>getFullXpath\<close> and \<open>getFullXpathHelper\<close> call each other: the helper asks for the full
  path of the shadow host when the root node of the element is a shadow root. The first
  argument of \<open>getFullXpath\<close> bounds the depth of these nested calls.
  \<open>getIframePathForElement\<close> yields the \<open>iframe\<close> fields of the frame nodes on the path
  to the element, outermost first; the loop walks them from the last to the first.
\<close>

definition fullXpathHelperWith :: "(elem \<Rightarrow> string option) \<Rightarrow> page \<Rightarrow> elem \<Rightarrow> string option" where
  "fullXpathHelperWith fullXpathFn pg element =
     (let xpath = getXPath pg element in
      case el_getRootNode pg element of
        ShadowRoot host \<Rightarrow>
          (case fullXpathFn host of
             None \<Rightarrow> None
           | Some hostPath \<Rightarrow> Some (hostPath @ ''/shadow-root()'' @ xpath))
      | Document d \<Rightarrow> Some xpath)"

fun prependIframePaths :: "(elem \<Rightarrow> string option) \<Rightarrow> elem option list \<Rightarrow> string \<Rightarrow> string option" where
  "prependIframePaths helperFn [] overallXpath = Some overallXpath"
| "prependIframePaths helperFn (nestedIframeElem # earlier) overallXpath =
     (case nestedIframeElem of
        Some iframeElem \<Rightarrow>
          (case helperFn iframeElem of
             None \<Rightarrow> None
           | Some iframePath \<Rightarrow> prependIframePaths helperFn earlier (iframePath @ overallXpath))
      | None \<Rightarrow> prependIframePaths helperFn earlier (''/corrupted-node-in-iframe-tree()'' @ overallXpath))"

fun getFullXpath :: "nat \<Rightarrow> page \<Rightarrow> elem \<Rightarrow> string option" where
  "getFullXpath 0 pg element = None"
| "getFullXpath (Suc fuel) pg element =
     (case fullXpathHelperWith (\<lambda>host. getFullXpath fuel pg host) pg element of
        None \<Rightarrow> None
      | Some overallXpath \<Rightarrow>
          (case getIframePathForElement pg element of
             None \<Rightarrow> Some overallXpath
           | Some nestedIframesPathToElem \<Rightarrow>
               prependIframePaths (fullXpathHelperWith (\<lambda>host. getFullXpath fuel pg host) pg)
                 (rev nestedIframesPathToElem) overallXpath))"

definition getFullXpathHelper :: "nat \<Rightarrow> page \<Rightarrow> elem \<Rightarrow> string option" where
  "getFullXpathHelper fuel pg element = fullXpathHelperWith (\<lambda>host. getFullXpath fuel pg host) pg element"

section \<open>Element descriptors and the foreground judge\<close>

record BoundingBox =
  tLx :: real
  tLy :: real
  bRx :: real
  bRy :: real

record ElementData =
  centerCoords :: "real \<times> real"
  description :: string
  tagHead :: string
  boundingBox :: BoundingBox
  width :: real
  height :: real
  tagName :: string
  element :: elem
  xpath :: string
  interactivesIndex :: "nat option"

definition findQueryPointsInOverlap :: "ElementData \<Rightarrow> ElementData \<Rightarrow> (real \<times> real) list" where
  "findQueryPointsInOverlap elem1Data elem2Data =
     (let overlapLeftX = max (tLx (boundingBox elem1Data)) (tLx (boundingBox elem2Data));
          overlapRightX = min (bRx (boundingBox elem1Data)) (bRx (boundingBox elem2Data));
          overlapTopY = max (tLy (boundingBox elem1Data)) (tLy (boundingBox elem2Data));
          overlapBottomY = min (bRy (boundingBox elem1Data)) (bRy (boundingBox elem2Data))
      in if overlapLeftX \<ge> overlapRightX \<or> overlapTopY \<ge> overlapBottomY then []
         else
           [(overlapLeftX + 1, overlapTopY + 1), (overlapRightX - 1, overlapTopY + 1),
            (overlapLeftX + 1, overlapBottomY - 1), (overlapRightX - 1, overlapBottomY - 1)]
           @ (if fst (centerCoords elem1Data) \<ge> overlapLeftX \<and> fst (centerCoords elem1Data) \<le> overlapRightX
                 \<and> snd (centerCoords elem1Data) \<ge> overlapTopY \<and> snd (centerCoords elem1Data) \<le> overlapBottomY
              then [centerCoords elem1Data] else [])
           @ (if fst (centerCoords elem2Data) \<ge> overlapLeftX \<and> fst (centerCoords elem2Data) \<le> overlapRightX
                 \<and> snd (centerCoords elem2Data) \<ge> overlapTopY \<and> snd (centerCoords elem2Data) \<le> overlapBottomY
              then [centerCoords elem2Data] else []))"

text \<open>
  The \<open>for (const queryPoint of queryPoints)\<close> loop of
  \<open>judgeOverlappingElementsForForeground\<close>, with the two counters
  \<open>numPointsWhereElem1IsForeground\<close> and \<open>numPointsWhereElem2IsForeground\<close> as a pair.
  The oracle is called without a search context.
\<close>

fun judgeLoop :: "page \<Rightarrow> ElementData \<Rightarrow> ElementData \<Rightarrow> (real \<times> real) list \<Rightarrow> nat \<times> nat \<Rightarrow> nat \<times> nat" where
  "judgeLoop pg elem1Data elem2Data [] counts = counts"
| "judgeLoop pg elem1Data elem2Data (queryPoint # rest) (num1, num2) =
     (let foregroundElemAtQueryPoint = actualElementFromPoint pg (fst queryPoint) (snd queryPoint) None;
          inElem1 = contains pg (element elem1Data) foregroundElemAtQueryPoint;
          inElem2 = contains pg (element elem2Data) foregroundElemAtQueryPoint
      in judgeLoop pg elem1Data elem2Data rest
           (if inElem1 \<and> \<not> inElem2 then (num1 + 1, num2)
            else if inElem2 \<and> \<not> inElem1 then (num1, num2 + 1)
            else if inElem1 \<and> inElem2 then
              (if Some (element elem1Data) = foregroundElemAtQueryPoint then (num1 + 1, num2)
               else if Some (element elem2Data) = foregroundElemAtQueryPoint then (num1, num2 + 1)
               else if contains pg (element elem1Data) (Some (element elem2Data)) then (num1, num2 + 1)
               else (num1 + 1, num2))
            else (num1, num2)))"

definition judgeOverlappingElementsForForeground :: "page \<Rightarrow> ElementData \<Rightarrow> ElementData \<Rightarrow> int" where
  "judgeOverlappingElementsForForeground pg elem1Data elem2Data =
     (let queryPoints = findQueryPointsInOverlap elem1Data elem2Data in
      if length queryPoints = 0 then 0
      else
        (let counts = judgeLoop pg elem1Data elem2Data queryPoints (0, 0);
             numPointsWhereElem1IsForeground = fst counts;
             numPointsWhereElem2IsForeground = snd counts
         in if numPointsWhereElem1IsForeground > numPointsWhereElem2IsForeground
            then (if numPointsWhereElem2IsForeground = 0 then 2 else 1)
            else if numPointsWhereElem1IsForeground < numPointsWhereElem2IsForeground
            then (if numPointsWhereElem1IsForeground = 0 then - 2 else - 1)
            else 0))"

text \<open>
  The classification of one sampled point, read off the branches of the loop body:
  the first (second) element is foreground at a point when the loop increments the
  first (second) counter there.
\<close>

definition elem1ForegroundAt :: "page \<Rightarrow> ElementData \<Rightarrow> ElementData \<Rightarrow> real \<times> real \<Rightarrow> bool" where
  "elem1ForegroundAt pg elem1Data elem2Data queryPoint =
     (let fg = actualElementFromPoint pg (fst queryPoint) (snd queryPoint) None;
          inElem1 = contains pg (element elem1Data) fg;
          inElem2 = contains pg (element elem2Data) fg
      in inElem1 \<and> (\<not> inElem2 \<or> Some (element elem1Data) = fg
            \<or> (Some (element elem2Data) \<noteq> fg \<and> \<not> contains pg (element elem1Data) (Some (element elem2Data)))))"

definition elem2ForegroundAt :: "page \<Rightarrow> ElementData \<Rightarrow> ElementData \<Rightarrow> real \<times> real \<Rightarrow> bool" where
  "elem2ForegroundAt pg elem1Data elem2Data queryPoint =
     (let fg = actualElementFromPoint pg (fst queryPoint) (snd queryPoint) None;
          inElem1 = contains pg (element elem1Data) fg;
          inElem2 = contains pg (element elem2Data) fg
      in inElem2 \<and> (\<not> inElem1 \<or> (Some (element elem1Data) \<noteq> fg
            \<and> (Some (element elem2Data) = fg \<or> contains pg (element elem1Data) (Some (element elem2Data))))))"

section \<open>Coordinate resolution\<close>






section \<open>Serializable descriptors\<close>

text \<open>
  A descriptor as a JavaScript object: a finite map from property names to values.
  \<open>makeElementDataSerializable\<close> copies the own properties (\<open>{...elementData}\<close>) and
  deletes the property \<open>element\<close> from the copy when it is there.
\<close>

datatype jsValue = JNumber real | JString string | JPoint "real \<times> real" | JBox BoundingBox | JElement elem

definition elementDataObject :: "ElementData \<Rightarrow> (string \<rightharpoonup> jsValue)" where
  "elementDataObject d =
     map_of ([(''centerCoords'', JPoint (centerCoords d)), (''description'', JString (description d)),
              (''tagHead'', JString (tagHead d)), (''boundingBox'', JBox (boundingBox d)),
              (''width'', JNumber (width d)), (''height'', JNumber (height d)),
              (''tagName'', JString (tagName d)), (''element'', JElement (element d)),
              (''xpath'', JString (xpath d))]
             @ (case interactivesIndex d of
                  None \<Rightarrow> []
                | Some i \<Rightarrow> [(''interactivesIndex'', JNumber (real i))]))"

definition makeElementDataSerializable :: "(string \<rightharpoonup> 'v) \<Rightarrow> (string \<rightharpoonup> 'v)" where
  "makeElementDataSerializable elementData =
     (let serializableElementData = elementData in
      if serializableElementData ''element'' \<noteq> None
      then serializableElementData(''element'' := None)
      else serializableElementData)"

section \<open>Element discovery\<close>



















text \<open>
  A root node lies in a document when it is that document or a shadow root whose host has
  a root node that lies in it. An element is inside a document when its root node lies in it.
\<close>

inductive rootInDocument :: "page \<Rightarrow> document \<Rightarrow> rootNode \<Rightarrow> bool" for pg :: page and d :: document where
  inDocument: "rootInDocument pg d (Document d)"
| inShadow: "rootInDocument pg d (el_getRootNode pg host) \<Longrightarrow> rootInDocument pg d (ShadowRoot host)"



section \<open>An example page\<close>

definition defaultStyle :: CSSStyleDeclaration where
  "defaultStyle = \<lparr>css_display = ''block'', css_visibility = ''visible'', css_height = ''20px'',
                    css_width = ''50px'', css_opacity = ''1''\<rparr>"

definition blankPage :: page where
  "blankPage =
     \<lparr>el_hidden = (\<lambda>e. False), el_tagName = (\<lambda>e. ''DIV''), el_hasOpenShadowRoot = (\<lambda>e. False),
      el_children = (\<lambda>e. []), el_contains = (\<lambda>u v. u = v), el_getRootNode = (\<lambda>e. Document 0),
      el_getAttribute = (\<lambda>e a. None), el_onclick = (\<lambda>e. False), el_type = (\<lambda>e. []),
      el_ariaDisabled = (\<lambda>e. None), el_disabled = (\<lambda>e. None), el_readOnly = (\<lambda>e. None),
      isInputElement = (\<lambda>e. False), getComputedStyle = (\<lambda>e. defaultStyle),
      grabClientBoundingRect = (\<lambda>e. \<lparr>rect_x = 0, rect_y = 0, rect_width = 50, rect_height = 20\<rparr>),
      getViewportInfo = (1000, 800), fetchElementsByCss = (\<lambda>sel r. []),
      actualElementFromPoint = (\<lambda>px py ctx. None), getXPath = (\<lambda>e. ''/html/body/div''),
      getIframePathForElement = (\<lambda>e. Some []), getElementDescription = (\<lambda>e. None),
      contentDocument = (\<lambda>e. Returns None), contentWindowDocument = (\<lambda>e. Throws ''SecurityError''),
      documentElementOuterHTML = (\<lambda>d. Returns ''<html></html>''), topDocument = 0,
      newIframeTree = IframeNode None (0, 0) []\<rparr>"

text \<open>
  A page with a \<open>div\<close> (1) around a \<open>button\<close> (2), a \<open>select\<close> (3), a \<open>span\<close> (10)
  that carries the hidden attribute, is displayed inline and has a visible link (11) as
  its child, a \<open>div\<close> (12) with \<open>display: none\<close>, a \<open>div\<close> (13) that carries the hidden
  attribute and is displayed as a block, a \<open>div\<close> (14) that carries the hidden attribute,
  is displayed inline and has 12 as its only child, an iframe (20) whose document 1 holds a
  button (21) and a nested iframe (23), whose document 2 holds a link (24).
\<close>

definition examplePage :: page where
  "examplePage = blankPage
     \<lparr>el_hidden := (\<lambda>e. e = 10 \<or> e = 13 \<or> e = 14),
      el_tagName := (\<lambda>e. if e = 2 \<or> e = 21 then ''BUTTON'' else if e = 3 then ''SELECT''
                          else if e = 10 then ''SPAN'' else if e = 11 \<or> e = 24 then ''A''
                          else if e = 20 \<or> e = 23 then ''IFRAME'' else ''DIV''),
      el_children := (\<lambda>e. if e = 1 then [2] else if e = 10 then [11] else if e = 14 then [12] else []),
      el_contains := (\<lambda>u v. u = v \<or> (u = 1 \<and> v = 2) \<or> (u = 10 \<and> v = 11)),
      el_getRootNode := (\<lambda>e. if e = 21 \<or> e = 23 then Document 1 else if e = 24 then Document 2 else Document 0),
      getComputedStyle := (\<lambda>e. if e = 10 \<or> e = 14 then defaultStyle\<lparr>css_display := ''inline''\<rparr>
                                else if e = 12 then defaultStyle\<lparr>css_display := ''none''\<rparr>
                                else defaultStyle),
      grabClientBoundingRect :=
        (\<lambda>e. if e = 1 then \<lparr>rect_x = 0, rect_y = 0, rect_width = 100, rect_height = 100\<rparr>
             else if e = 2 then \<lparr>rect_x = 20, rect_y = 20, rect_width = 40, rect_height = 40\<rparr>
             else if e = 3 then \<lparr>rect_x = 0, rect_y = 120, rect_width = 50, rect_height = 20\<rparr>
             else if e = 20 then \<lparr>rect_x = 300, rect_y = 100, rect_width = 400, rect_height = 300\<rparr>
             else if e = 21 then \<lparr>rect_x = 10, rect_y = 15, rect_width = 80, rect_height = 30\<rparr>
             else if e = 23 then \<lparr>rect_x = 5, rect_y = 5, rect_width = 100, rect_height = 100\<rparr>
             else if e = 24 then \<lparr>rect_x = 1, rect_y = 2, rect_width = 10, rect_height = 10\<rparr>
             else \<lparr>rect_x = 0, rect_y = 200, rect_width = 50, rect_height = 20\<rparr>),
      actualElementFromPoint := (\<lambda>px py ctx. if py \<ge> 200 then Some 11 else if px < 30 then Some 1 else Some 2),
      getXPath := (\<lambda>e. if e = 2 then ''/html/body/div/button'' else if e = 20 \<or> e = 23 then ''/html/body/iframe''
                        else if e = 21 then ''/html/body/button'' else if e = 24 then ''/html/body/a''
                        else ''/html/body/div''),
      getIframePathForElement := (\<lambda>e. if e = 21 \<or> e = 23 then Some [Some 20]
                                       else if e = 24 then Some [Some 20, Some 23] else Some []),
      contentDocument := (\<lambda>e. if e = 20 then Returns (Some 1) else if e = 23 then Returns (Some 2) else Returns None)\<rparr>"

definition topNode :: IframeNode where
  "topNode = IframeNode None (0, 0) []"

definition descOuter :: ElementData where
  "descOuter = \<lparr>centerCoords = (50, 50), description = ''outer'', tagHead = ''div'',
                 boundingBox = \<lparr>tLx = 0, tLy = 0, bRx = 100, bRy = 100\<rparr>, width = 100, height = 100,
                 tagName = ''div'', element = 1, xpath = ''/html/body/div'', interactivesIndex = Some 0\<rparr>"

definition descButton :: ElementData where
  "descButton = \<lparr>centerCoords = (40, 40), description = ''Send'', tagHead = ''button'',
                  boundingBox = \<lparr>tLx = 20, tLy = 20, bRx = 60, bRy = 60\<rparr>, width = 40, height = 40,
                  tagName = ''button'', element = 2, xpath = ''/html/body/div/button'',
                  interactivesIndex = Some 1\<rparr>"


definition descButtonAgain :: ElementData where
  "descButtonAgain = descButton\<lparr>interactivesIndex := Some 2\<rparr>"

definition exampleChoices :: "StrTriple list" where
  "exampleChoices = [(''Send'', ''button'', ''button''), (''Home page'', ''a'', ''a'')]"



section \<open>Properties of the occlusion test\<close>

lemma buriedLoop_not_buried: "buriedLoop pg e ctx pts False = False"
  by (cases pts) simp_all

lemma buriedLoop_True:
  "buriedLoop pg e ctx pts True =
     (\<forall>p \<in> set pts. \<not> contains pg e (actualElementFromPoint pg (fst p) (snd p) ctx))"
  by (induction pts) (simp_all add: buriedLoop_not_buried)

text \<open>
  Claim C6. The occlusion test \<open>isBuriedInBackground\<close> returns \<open>false\<close> for every element
  whose bounding box has zero width or zero height, for every \<open>select\<close> element and for
  every input element of type checkbox, whatever the hit-testing oracle reports.
\<close>

theorem isBuriedInBackground_exemptions:
  "rect_width (grabClientBoundingRect pg e) = 0 \<or> rect_height (grabClientBoundingRect pg e) = 0
     \<or> toLowerCase (el_tagName pg e) = ''select''
     \<or> (isInputElement pg e \<and> el_type pg e = ''checkbox'')
   \<Longrightarrow> isBuriedInBackground pg e node = False"
  by (auto simp: isBuriedInBackground_def Let_def)

theorem isBuriedInBackground_exemptions_witness:
  "(rect_width (grabClientBoundingRect examplePage 3) = 0 \<or> rect_height (grabClientBoundingRect examplePage 3) = 0
     \<or> toLowerCase (el_tagName examplePage 3) = ''select''
     \<or> (isInputElement examplePage 3 \<and> el_type examplePage 3 = ''checkbox''))
   \<and> isBuriedInBackground examplePage 3 topNode = False"
proof -
  have s: "toLowerCase (el_tagName examplePage 3) = ''select''"
    by (simp add: examplePage_def toLowerCase_def toLowerChar_def)
  show ?thesis using s isBuriedInBackground_exemptions [of examplePage 3 topNode] by blast
qed

text \<open>
  Claim C7. For an element with a non-degenerate bounding box that is neither a \<open>select\<close>
  nor a checkbox input, \<open>isBuriedInBackground\<close> returns \<open>true\<close> if and only if at none of
  the five sampled points (the four corners of the box, each inset by one unit, and the
  center) the element contains the element that the hit-testing oracle reports there.
\<close>

theorem isBuriedInBackground_iff_no_sample_point_foreground:
  assumes "r = grabClientBoundingRect pg e" "rect_width r \<noteq> 0" "rect_height r \<noteq> 0"
    "toLowerCase (el_tagName pg e) \<noteq> ''select''"
    "\<not> (isInputElement pg e \<and> el_type pg e = ''checkbox'')"
  shows "isBuriedInBackground pg e node \<longleftrightarrow>
    \<not> (\<exists>p \<in> {(rect_x r + 1, rect_y r + 1), (rect_x r + rect_width r - 1, rect_y r + 1),
              (rect_x r + 1, rect_y r + rect_height r - 1),
              (rect_x r + rect_width r - 1, rect_y r + rect_height r - 1),
              (rect_x r + rect_width r / 2, rect_y r + rect_height r / 2)}.
          contains pg e (actualElementFromPoint pg (fst p) (snd p) (buriedSearchContext pg node)))"
  using assms by (auto simp: isBuriedInBackground_def Let_def buriedLoop_True buriedQueryPoints_def)

theorem isBuriedInBackground_iff_no_sample_point_foreground_witness:
  "grabClientBoundingRect examplePage 2 = \<lparr>rect_x = 20, rect_y = 20, rect_width = 40, rect_height = 40\<rparr>
   \<and> toLowerCase (el_tagName examplePage 2) \<noteq> ''select''
   \<and> \<not> (isInputElement examplePage 2 \<and> el_type examplePage 2 = ''checkbox'')
   \<and> contains examplePage 2 (actualElementFromPoint examplePage 59 21 (buriedSearchContext examplePage topNode))
   \<and> \<not> isBuriedInBackground examplePage 2 topNode"
proof -
  define r where "r = \<lparr>rect_x = 20, rect_y = 20, rect_width = 40, rect_height = (40::real)\<rparr>"
  have r: "r = grabClientBoundingRect examplePage 2"
    by (simp add: r_def examplePage_def)
  have w: "rect_width r \<noteq> 0" and h: "rect_height r \<noteq> 0"
    by (simp_all add: r_def)
  have t: "toLowerCase (el_tagName examplePage 2) \<noteq> ''select''"
    by (simp add: examplePage_def toLowerCase_def toLowerChar_def)
  have i: "\<not> (isInputElement examplePage 2 \<and> el_type examplePage 2 = ''checkbox'')"
    by (simp add: examplePage_def blankPage_def)
  have c: "contains examplePage 2 (actualElementFromPoint examplePage 59 21 (buriedSearchContext examplePage topNode))"
    by (simp add: examplePage_def contains_def)
  have "\<not> isBuriedInBackground examplePage 2 topNode"
    using isBuriedInBackground_iff_no_sample_point_foreground [OF r w h t i, of topNode] c
    by (simp add: r_def)
  with r t i c show ?thesis by (simp add: r_def)
qed

section \<open>Properties of the path resolver\<close>

text \<open>
  Claim C8. For an element whose root node is a document (no shadow-root boundary) and for
  which the iframe tree records no iframe on the path (no iframe boundary),
  \<open>getFullXpath\<close> returns exactly the plain structural path \<open>getXPath\<close> of the element.
\<close>

theorem getFullXpath_plain_without_boundaries:
  assumes "el_getRootNode pg e = Document d"
    and "getIframePathForElement pg e = None \<or> getIframePathForElement pg e = Some []"
  shows "getFullXpath (Suc fuel) pg e = Some (getXPath pg e)"
  using assms by (auto simp: fullXpathHelperWith_def)

theorem getFullXpath_plain_without_boundaries_witness:
  "el_getRootNode examplePage 2 = Document 0
   \<and> (getIframePathForElement examplePage 2 = None \<or> getIframePathForElement examplePage 2 = Some [])
   \<and> getFullXpath (Suc 0) examplePage 2 = Some ''/html/body/div/button''"
proof -
  have r: "el_getRootNode examplePage 2 = Document 0"
    by (simp add: examplePage_def)
  have p: "getIframePathForElement examplePage 2 = None \<or> getIframePathForElement examplePage 2 = Some []"
    by (simp add: examplePage_def)
  have x: "getXPath examplePage 2 = ''/html/body/div/button''"
    by (simp add: examplePage_def)
  show ?thesis
    using r p x getFullXpath_plain_without_boundaries [OF r p, of 0] by simp
qed

section \<open>Properties of the coordinate resolver\<close>




section \<open>Properties of the foreground judge\<close>

lemma judgeLoop_counts:
  "judgeLoop pg a b pts (n1, n2) =
     (n1 + length (filter (elem1ForegroundAt pg a b) pts),
      n2 + length (filter (elem2ForegroundAt pg a b) pts))"
  by (induction pts arbitrary: n1 n2) (auto simp: Let_def elem1ForegroundAt_def elem2ForegroundAt_def)

lemma judge_by_counts:
  "judgeOverlappingElementsForForeground pg a b =
     (let pts = findQueryPointsInOverlap a b;
          c1 = length (filter (elem1ForegroundAt pg a b) pts);
          c2 = length (filter (elem2ForegroundAt pg a b) pts)
      in if pts = [] then 0
         else if c1 > c2 then (if c2 = 0 then 2 else 1)
         else if c1 < c2 then (if c1 = 0 then - 2 else - 1)
         else 0)"
  by (simp add: judgeOverlappingElementsForForeground_def Let_def judgeLoop_counts)

lemma no_query_points_iff:
  "(findQueryPointsInOverlap a b = []) =
     (max (tLx (boundingBox a)) (tLx (boundingBox b)) \<ge> min (bRx (boundingBox a)) (bRx (boundingBox b))
      \<or> max (tLy (boundingBox a)) (tLy (boundingBox b)) \<ge> min (bRy (boundingBox a)) (bRy (boundingBox b)))"
  by (simp add: findQueryPointsInOverlap_def Let_def)

text \<open>
  Claim C5. \<open>judgeOverlappingElementsForForeground\<close> returns 0 when the intersection of the
  two bounding boxes is empty (its left edge is not left of its right edge, or its top edge
  is not above its bottom edge), in which case there is no sample point. Otherwise, with
  \<open>c1\<close> and \<open>c2\<close> the numbers of sampled points at which the first and the second element
  are classified foreground, it returns 2 iff \<open>c1 > 0\<close> and \<open>c2 = 0\<close>, 1 iff \<open>c1 > c2 > 0\<close>,
  0 iff \<open>c1 = c2\<close>, -1 iff \<open>c2 > c1 > 0\<close>, and -2 iff \<open>c2 > 0\<close> and \<open>c1 = 0\<close>.
\<close>

theorem judge_five_way_result:
  fixes pg a b
  defines "emptyIntersection \<equiv>
     max (tLx (boundingBox a)) (tLx (boundingBox b)) \<ge> min (bRx (boundingBox a)) (bRx (boundingBox b))
     \<or> max (tLy (boundingBox a)) (tLy (boundingBox b)) \<ge> min (bRy (boundingBox a)) (bRy (boundingBox b))"
  defines "pts \<equiv> findQueryPointsInOverlap a b"
  defines "c1 \<equiv> length (filter (elem1ForegroundAt pg a b) pts)"
  defines "c2 \<equiv> length (filter (elem2ForegroundAt pg a b) pts)"
  defines "j \<equiv> judgeOverlappingElementsForForeground pg a b"
  shows "(emptyIntersection \<longrightarrow> pts = [] \<and> j = 0) \<and>
         (\<not> emptyIntersection \<longrightarrow>
            (j = 2 \<longleftrightarrow> c1 > 0 \<and> c2 = 0) \<and> (j = 1 \<longleftrightarrow> c1 > c2 \<and> c2 > 0) \<and> (j = 0 \<longleftrightarrow> c1 = c2)
          \<and> (j = - 1 \<longleftrightarrow> c2 > c1 \<and> c1 > 0) \<and> (j = - 2 \<longleftrightarrow> c2 > 0 \<and> c1 = 0))"
proof -
  have e: "emptyIntersection = (pts = [])"
    unfolding emptyIntersection_def pts_def by (simp only: no_query_points_iff)
  have j: "j = (if pts = [] then 0
         else if c1 > c2 then (if c2 = 0 then 2 else 1)
         else if c1 < c2 then (if c1 = 0 then - 2 else - 1)
         else 0)"
    unfolding j_def c1_def c2_def pts_def by (simp add: judge_by_counts Let_def)
  show ?thesis
  proof (cases "pts = []")
    case True
    then show ?thesis by (simp add: j e)
  next
    case False
    consider "c1 > c2" "c2 = 0" | "c1 > c2" "c2 > 0" | "c1 < c2" "c1 = 0" | "c1 < c2" "c1 > 0" | "c1 = c2"
      by linarith
    then show ?thesis
      by cases (auto simp: j e False)
  qed
qed

theorem judge_five_way_result_witness:
  "findQueryPointsInOverlap descOuter descButton = [(21, 21), (59, 21), (21, 59), (59, 59), (50, 50), (40, 40)]
   \<and> length (filter (elem1ForegroundAt examplePage descOuter descButton)
        (findQueryPointsInOverlap descOuter descButton)) = 2
   \<and> length (filter (elem2ForegroundAt examplePage descOuter descButton)
        (findQueryPointsInOverlap descOuter descButton)) = 4
   \<and> judgeOverlappingElementsForForeground examplePage descOuter descButton = - 1"
proof -
  have pts: "findQueryPointsInOverlap descOuter descButton
      = [(21, 21), (59, 21), (21, 59), (59, 59), (50, 50), (40, 40)]"
    by (simp add: findQueryPointsInOverlap_def Let_def descOuter_def descButton_def)
  have c1: "length (filter (elem1ForegroundAt examplePage descOuter descButton)
      (findQueryPointsInOverlap descOuter descButton)) = 2"
    unfolding pts
    by (simp add: elem1ForegroundAt_def Let_def descOuter_def descButton_def examplePage_def contains_def)
  have c2: "length (filter (elem2ForegroundAt examplePage descOuter descButton)
      (findQueryPointsInOverlap descOuter descButton)) = 4"
    unfolding pts
    by (simp add: elem2ForegroundAt_def Let_def descOuter_def descButton_def examplePage_def contains_def)
  have ne: "\<not> (max (tLx (boundingBox descOuter)) (tLx (boundingBox descButton))
                 \<ge> min (bRx (boundingBox descOuter)) (bRx (boundingBox descButton))
              \<or> max (tLy (boundingBox descOuter)) (tLy (boundingBox descButton))
                 \<ge> min (bRy (boundingBox descOuter)) (bRy (boundingBox descButton)))"
    by (simp add: descOuter_def descButton_def)
  have "judgeOverlappingElementsForForeground examplePage descOuter descButton = - 1"
    using ne c1 c2 judge_five_way_result [of descOuter descButton examplePage] by simp
  with pts c1 c2 show ?thesis by simp
qed

lemma both_contain_xor:
  assumes "element a \<noteq> element b"
    and "\<forall>u v. el_contains pg u v \<and> el_contains pg v u \<longrightarrow> u = v"
    and "\<forall>u v w. el_contains pg u w \<and> el_contains pg v w \<longrightarrow> el_contains pg u v \<or> el_contains pg v u"
    and "contains pg (element a) fg" "contains pg (element b) fg"
  shows "contains pg (element a) (Some (element b)) \<noteq> contains pg (element b) (Some (element a))"
proof (cases fg)
  case None
  with assms(4) show ?thesis by (simp add: contains_def)
next
  case (Some w)
  with assms(4,5) have "el_contains pg (element a) w" "el_contains pg (element b) w"
    by (simp_all add: contains_def)
  with assms(3) have "el_contains pg (element a) (element b) \<or> el_contains pg (element b) (element a)"
    by blast
  moreover have "\<not> (el_contains pg (element a) (element b) \<and> el_contains pg (element b) (element a))"
    using assms(1,2) by blast
  ultimately show ?thesis by (auto simp: contains_def)
qed

lemma swap_votes1:
  assumes "element a \<noteq> element b"
    and "\<forall>u v. el_contains pg u v \<and> el_contains pg v u \<longrightarrow> u = v"
    and "\<forall>u v w. el_contains pg u w \<and> el_contains pg v w \<longrightarrow> el_contains pg u v \<or> el_contains pg v u"
  shows "elem1ForegroundAt pg b a p = elem2ForegroundAt pg a b p"
  using both_contain_xor[OF assms, of "actualElementFromPoint pg (fst p) (snd p) None"] assms(1)
  unfolding elem1ForegroundAt_def elem2ForegroundAt_def Let_def
  by auto

lemma swap_votes2:
  assumes "element a \<noteq> element b"
    and "\<forall>u v. el_contains pg u v \<and> el_contains pg v u \<longrightarrow> u = v"
    and "\<forall>u v w. el_contains pg u w \<and> el_contains pg v w \<longrightarrow> el_contains pg u v \<or> el_contains pg v u"
  shows "elem2ForegroundAt pg b a p = elem1ForegroundAt pg a b p"
  using both_contain_xor[OF assms, of "actualElementFromPoint pg (fst p) (snd p) None"] assms(1)
  unfolding elem1ForegroundAt_def elem2ForegroundAt_def Let_def
  by auto

lemma overlap_points_swap:
  "length (filter P (findQueryPointsInOverlap b a)) = length (filter P (findQueryPointsInOverlap a b))"
  by (simp add: findQueryPointsInOverlap_def Let_def max.commute min.commute)

lemma overlap_points_empty_swap:
  "(findQueryPointsInOverlap b a = []) = (findQueryPointsInOverlap a b = [])"
  by (simp add: findQueryPointsInOverlap_def Let_def max.commute min.commute)

text \<open>
  Claim C4, as the source has it. For the descriptors of two different elements of a page
  whose containment relation is that of a tree (two elements that contain each other are
  the same, and two elements that contain a common element are comparable), and with the
  oracle a fixed function of the query point, swapping the arguments of
  \<open>judgeOverlappingElementsForForeground\<close> negates the result.
\<close>

theorem judge_antisymmetric_for_distinct_elements:
  assumes "element a \<noteq> element b"
    and "\<forall>u v. el_contains pg u v \<and> el_contains pg v u \<longrightarrow> u = v"
    and "\<forall>u v w. el_contains pg u w \<and> el_contains pg v w \<longrightarrow> el_contains pg u v \<or> el_contains pg v u"
  shows "judgeOverlappingElementsForForeground pg b a = - judgeOverlappingElementsForForeground pg a b"
proof -
  have v1: "elem1ForegroundAt pg b a = elem2ForegroundAt pg a b"
    using swap_votes1[OF assms] by (intro ext)
  have v2: "elem2ForegroundAt pg b a = elem1ForegroundAt pg a b"
    using swap_votes2[OF assms] by (intro ext)
  show ?thesis
    by (simp add: judge_by_counts Let_def v1 v2 overlap_points_swap overlap_points_empty_swap)
qed

theorem judge_antisymmetric_for_distinct_elements_witness:
  "element descOuter \<noteq> element descButton
   \<and> judgeOverlappingElementsForForeground examplePage descButton descOuter
       = - judgeOverlappingElementsForForeground examplePage descOuter descButton"
proof -
  have ne: "element descOuter \<noteq> element descButton"
    by (simp add: descOuter_def descButton_def)
  have anti: "\<forall>u v. el_contains examplePage u v \<and> el_contains examplePage v u \<longrightarrow> u = v"
    by (auto simp: examplePage_def)
  have chain: "\<forall>u v w. el_contains examplePage u w \<and> el_contains examplePage v w
         \<longrightarrow> el_contains examplePage u v \<or> el_contains examplePage v u"
    by (auto simp: examplePage_def)
  show ?thesis
    using ne judge_antisymmetric_for_distinct_elements [OF ne anti chain] by blast
qed

text \<open>
  The claim as it was stated fails for two descriptors of one element: where the button of
  the example page is the topmost element, every such point counts for the first argument,
  in either order.
\<close>

theorem judge_same_element_counterexample:
  "judgeOverlappingElementsForForeground examplePage descButton descButtonAgain = 2
   \<and> judgeOverlappingElementsForForeground examplePage descButtonAgain descButton = 2"
  by (simp add: judgeOverlappingElementsForForeground_def findQueryPointsInOverlap_def Let_def
      descButton_def descButtonAgain_def examplePage_def blankPage_def contains_def)

section \<open>Properties of serialization\<close>

text \<open>
  Claim C9. \<open>makeElementDataSerializable\<close> removes the property \<open>element\<close> from a descriptor
  and leaves every other property (tag head, tag name, description, bounding box, center
  coordinates, width, height, xpath, index) as it was.
\<close>

theorem makeElementDataSerializable_strips_only_element:
  "makeElementDataSerializable obj ''element'' = None
   \<and> (k \<noteq> ''element'' \<longrightarrow> makeElementDataSerializable obj k = obj k)"
  by (simp add: makeElementDataSerializable_def Let_def)

theorem makeElementDataSerializable_strips_only_element_witness:
  "makeElementDataSerializable (elementDataObject descButton) ''element'' = None
   \<and> ''xpath'' \<noteq> ''element''
   \<and> elementDataObject descButton ''element'' = Some (JElement 2)
   \<and> makeElementDataSerializable (elementDataObject descButton) ''xpath''
        = Some (JString ''/html/body/div/button'')"
proof -
  have k: "''xpath'' \<noteq> ''element''" by simp
  have e: "elementDataObject descButton ''element'' = Some (JElement 2)"
    by (simp add: elementDataObject_def descButton_def)
  have x: "elementDataObject descButton ''xpath'' = Some (JString ''/html/body/div/button'')"
    by (simp add: elementDataObject_def descButton_def)
  show ?thesis
    using k e x makeElementDataSerializable_strips_only_element [of "elementDataObject descButton" "''xpath''"]
    by simp
qed

section \<open>Properties of the prompt formatting\<close>

lemma arrayAt_Some_iff:
  "(arrayAt xs n \<noteq> None) = (\<exists>k < length xs. n = Num (real k))"
proof
  assume a: "arrayAt xs n \<noteq> None"
  then obtain r where n: "n = Num r" and i: "r = of_int \<lfloor>r\<rfloor>" and lo: "0 \<le> r" and hi: "r < real (length xs)"
    by (cases n) (auto simp: arrayAt_def split: if_splits)
  from lo have "0 \<le> \<lfloor>r\<rfloor>" by simp
  then have k: "real (nat \<lfloor>r\<rfloor>) = r" using i by simp
  with hi have "nat \<lfloor>r\<rfloor> < length xs" by linarith
  with n k show "\<exists>k < length xs. n = Num (real k)" by (intro exI[of _ "nat \<lfloor>r\<rfloor>"]) simp
next
  assume "\<exists>k < length xs. n = Num (real k)"
  then show "arrayAt xs n \<noteq> None" by (auto simp: arrayAt_def)
qed

lemma arrayAt_None_iff:
  "(arrayAt xs n = None) = (\<forall>k < length xs. n \<noteq> Num (real k))"
  using arrayAt_Some_iff[of xs n] by blast

lemma formatChoice_TypeError_iff:
  "(formatChoice elements i = Inl err) = (err = TypeError \<and> arrayAt elements i = None)"
  by (auto simp: formatChoice_def Let_def split: option.splits prod.splits)

lemma mapChoices_Inl_iff:
  "(mapChoices elements ids = Inl err) = (err = TypeError \<and> (\<exists>i \<in> set ids. arrayAt elements i = None))"
proof (induction ids)
  case Nil
  show ?case by simp
next
  case (Cons i ids)
  show ?case
  proof (cases "formatChoice elements i")
    case (Inl e)
    then show ?thesis using formatChoice_TypeError_iff[of elements i e] by auto
  next
    case (Inr pair)
    then have "arrayAt elements i \<noteq> None"
      using formatChoice_TypeError_iff[of elements i TypeError] by (auto simp: formatChoice_def split: option.splits)
    with Inr Cons.IH show ?thesis by (auto split: sum.splits)
  qed
qed

lemma mapChoices_Inr_length:
  "mapChoices elements ids = Inr pairs \<Longrightarrow> length pairs = length ids"
  by (induction ids arbitrary: pairs) (auto split: sum.splits)

lemma formatChoices_Error_iff:
  "(\<exists>msg. formatChoices elements candidateIds = Inl (Error msg))
     = (\<exists>i \<in> set candidateIds. numLess i 0 \<or> numAtLeast i (real (length elements)))"
proof (cases "\<exists>i \<in> set candidateIds. numLess i 0 \<or> numAtLeast i (real (length elements))")
  case True
  then have "filter (\<lambda>i. numLess i 0 \<or> numAtLeast i (real (length elements))) candidateIds \<noteq> []"
    by (simp add: filter_empty_conv)
  then show ?thesis using True by (simp add: formatChoices_def Let_def)
next
  case False
  then have "filter (\<lambda>i. numLess i 0 \<or> numAtLeast i (real (length elements))) candidateIds = []"
    by (simp add: filter_empty_conv)
  then have "formatChoices elements candidateIds = mapChoices elements candidateIds"
    by (simp add: formatChoices_def Let_def)
  then show ?thesis using False mapChoices_Inl_iff[of elements candidateIds] by auto
qed

lemma formatChoices_in_range:
  assumes "\<not> (\<exists>i \<in> set candidateIds. numLess i 0 \<or> numAtLeast i (real (length elements)))"
  shows "formatChoices elements candidateIds = mapChoices elements candidateIds"
proof -
  from assms have "filter (\<lambda>i. numLess i 0 \<or> numAtLeast i (real (length elements))) candidateIds = []"
    by (simp add: filter_empty_conv)
  then show ?thesis by (simp add: formatChoices_def Let_def)
qed

lemma formatChoices_TypeError_iff:
  "(formatChoices elements candidateIds = Inl TypeError)
     = (\<not> (\<exists>i \<in> set candidateIds. numLess i 0 \<or> numAtLeast i (real (length elements)))
        \<and> (\<exists>i \<in> set candidateIds. \<not> (\<exists>k < length elements. i = Num (real k))))"
proof (cases "\<exists>i \<in> set candidateIds. numLess i 0 \<or> numAtLeast i (real (length elements))")
  case True
  with formatChoices_Error_iff[of elements candidateIds] obtain msg where
    "formatChoices elements candidateIds = Inl (Error msg)" by auto
  with True show ?thesis by simp
next
  case False
  have "(mapChoices elements candidateIds = Inl TypeError)
      = (\<exists>i \<in> set candidateIds. \<not> (\<exists>k < length elements. i = Num (real k)))"
    by (simp add: mapChoices_Inl_iff arrayAt_None_iff)
  with False show ?thesis by (simp add: formatChoices_in_range[OF False])
qed

lemma formatChoices_all_indices:
  assumes "\<forall>i \<in> set candidateIds. \<exists>k < length elements. i = Num (real k)"
  shows "\<exists>pairs. formatChoices elements candidateIds = Inr pairs \<and> length pairs = length candidateIds"
proof -
  have inr: "\<not> (\<exists>i \<in> set candidateIds. numLess i 0 \<or> numAtLeast i (real (length elements)))"
  proof
    assume "\<exists>i \<in> set candidateIds. numLess i 0 \<or> numAtLeast i (real (length elements))"
    then obtain i where i: "i \<in> set candidateIds" "numLess i 0 \<or> numAtLeast i (real (length elements))"
      by auto
    with assms obtain k where "k < length elements" "i = Num (real k)" by auto
    with i(2) show False by (simp add: numLess_def numAtLeast_def)
  qed
  have "\<not> (\<exists>i \<in> set candidateIds. arrayAt elements i = None)"
    using assms by (simp add: arrayAt_None_iff)
  then have "\<And>err. mapChoices elements candidateIds \<noteq> Inl err"
    by (simp only: mapChoices_Inl_iff) simp
  then obtain pairs where p: "mapChoices elements candidateIds = Inr pairs"
    by (cases "mapChoices elements candidateIds") auto
  from mapChoices_Inr_length[OF p] p show ?thesis
    by (simp add: formatChoices_in_range[OF inr])
qed

text \<open>
  Claim C10, as the source has it. \<open>formatChoices\<close> throws the range \<open>Error\<close> if and
  only if some candidate id is negative or at least the length of the elements list.
  Otherwise it throws a \<open>TypeError\<close> if and only if some candidate id is not an index of
  the list, that is a number with a fractional part or \<open>NaN\<close>. When every candidate id is
  an index of the list it returns one pair per candidate id.
\<close>

theorem formatChoices_outcomes:
  "((\<exists>msg. formatChoices elements candidateIds = Inl (Error msg))
      \<longleftrightarrow> (\<exists>i \<in> set candidateIds. numLess i 0 \<or> numAtLeast i (real (length elements))))
   \<and> (formatChoices elements candidateIds = Inl TypeError
      \<longleftrightarrow> \<not> (\<exists>i \<in> set candidateIds. numLess i 0 \<or> numAtLeast i (real (length elements)))
          \<and> (\<exists>i \<in> set candidateIds. \<not> (\<exists>k < length elements. i = Num (real k))))
   \<and> ((\<forall>i \<in> set candidateIds. \<exists>k < length elements. i = Num (real k))
      \<longrightarrow> (\<exists>pairs. formatChoices elements candidateIds = Inr pairs \<and> length pairs = length candidateIds))"
proof (intro conjI impI)
  show "(\<exists>msg. formatChoices elements candidateIds = Inl (Error msg))
      \<longleftrightarrow> (\<exists>i \<in> set candidateIds. numLess i 0 \<or> numAtLeast i (real (length elements)))"
    by (rule formatChoices_Error_iff)
  show "formatChoices elements candidateIds = Inl TypeError
      \<longleftrightarrow> \<not> (\<exists>i \<in> set candidateIds. numLess i 0 \<or> numAtLeast i (real (length elements)))
          \<and> (\<exists>i \<in> set candidateIds. \<not> (\<exists>k < length elements. i = Num (real k)))"
    by (rule formatChoices_TypeError_iff)
  assume "\<forall>i \<in> set candidateIds. \<exists>k < length elements. i = Num (real k)"
  then show "\<exists>pairs. formatChoices elements candidateIds = Inr pairs \<and> length pairs = length candidateIds"
    by (rule formatChoices_all_indices)
qed

theorem formatChoices_outcomes_witness:
  "(\<exists>pairs. formatChoices exampleChoices [Num 1, Num 0] = Inr pairs \<and> length pairs = 2)
   \<and> (\<exists>msg. formatChoices exampleChoices [Num 1, Num 2] = Inl (Error msg))
   \<and> formatChoices exampleChoices [Num 1, NaN] = Inl TypeError"
proof -
  have len: "length exampleChoices = 2"
    by (simp add: exampleChoices_def)
  have idx: "\<forall>i \<in> set [Num 1, Num 0]. \<exists>k < length exampleChoices. i = Num (real k)"
  proof -
    have "Num 1 = Num (real 1) \<and> (1::nat) < length exampleChoices" by (simp add: len)
    moreover have "Num 0 = Num (real 0) \<and> (0::nat) < length exampleChoices" by (simp add: len)
    ultimately show ?thesis by (simp del: of_nat_0 of_nat_1)
  qed
  have "\<exists>pairs. formatChoices exampleChoices [Num 1, Num 0] = Inr pairs \<and> length pairs = length [Num 1, Num 0]"
    using idx formatChoices_outcomes [of exampleChoices "[Num 1, Num 0]"] by blast
  then have a: "\<exists>pairs. formatChoices exampleChoices [Num 1, Num 0] = Inr pairs \<and> length pairs = 2"
    by (simp add: numeral_2_eq_2)
  have bad: "\<exists>i \<in> set [Num 1, Num 2]. numLess i 0 \<or> numAtLeast i (real (length exampleChoices))"
    by (simp add: len numLess_def numAtLeast_def)
  have b: "\<exists>msg. formatChoices exampleChoices [Num 1, Num 2] = Inl (Error msg)"
    using bad formatChoices_outcomes [of exampleChoices "[Num 1, Num 2]"] by blast
  have inRange: "\<not> (\<exists>i \<in> set [Num 1, NaN]. numLess i 0 \<or> numAtLeast i (real (length exampleChoices)))"
    by (simp add: len numLess_def numAtLeast_def)
  have notIndex: "\<exists>i \<in> set [Num 1, NaN]. \<not> (\<exists>k < length exampleChoices. i = Num (real k))"
    by simp
  have c: "formatChoices exampleChoices [Num 1, NaN] = Inl TypeError"
    using inRange notIndex formatChoices_outcomes [of exampleChoices "[Num 1, NaN]"] by blast
  from a b c show ?thesis by blast
qed

text \<open>
  The claim as it was stated fails: the candidate id \<open>0.5\<close> is neither negative nor at
  least the length of the list of two elements, and \<open>formatChoices\<close> raises a
  \<open>TypeError\<close> for it.
\<close>

theorem formatChoices_fraction_counterexample:
  "\<not> numLess (Num (1 / 2)) 0 \<and> \<not> numAtLeast (Num (1 / 2)) (real (length exampleChoices))
   \<and> formatChoices exampleChoices [Num (1 / 2)] = Inl TypeError"
  by (simp add: formatChoices_def exampleChoices_def numLess_def numAtLeast_def formatChoice_def arrayAt_def)

section \<open>Properties of the visibility analysis\<close>

lemma anyChildVisible_all_hidden:
  "\<forall>c \<in> set cs. f c = Some True \<Longrightarrow> anyChildVisible f cs = Some False"
  by (induction cs) simp_all

lemma anyChildVisible_first_visible:
  "\<forall>c \<in> set before. f c = Some True \<Longrightarrow> f child = Some False
    \<Longrightarrow> anyChildVisible f (before @ child # after) = Some True"
  by (induction before) simp_all

lemma hidden_attribute_seems_invisible:
  assumes "el_hidden pg e"
  shows "calcIsHidden (Suc fuel) pg e node isDocHostElem =
     (if str_includes (css_display (getComputedStyle pg e)) ''inline''
      then (case anyChildVisible (\<lambda>child. calcIsHidden fuel pg child node False) (el_children pg e) of
              None \<Rightarrow> None
            | Some foundVisibleChild \<Rightarrow> Some (\<not> foundVisibleChild))
      else Some True)"
  using assms by (simp add: Let_def)

text \<open>
  Claim C1, as the source has it. An element with computed \<open>display: none\<close> is reported
  hidden whatever its geometry, its occlusion status and its children are. An element that
  carries the hidden attribute is reported hidden whatever its geometry and occlusion
  status are when its computed display does not contain \<open>inline\<close>, and also when it does
  and every one of its children is reported hidden. When its display contains \<open>inline\<close>
  and one of its children is reported visible, the children before that one being
  reported hidden, the element is reported visible.
\<close>

theorem calcIsHidden_display_none_or_hidden_attribute:
  "(css_display (getComputedStyle pg e) = ''none''
      \<longrightarrow> calcIsHidden (Suc fuel) pg e node isDocHostElem = Some True)
   \<and> (el_hidden pg e \<and> \<not> str_includes (css_display (getComputedStyle pg e)) ''inline''
      \<longrightarrow> calcIsHidden (Suc fuel) pg e node isDocHostElem = Some True)
   \<and> (el_hidden pg e \<and> str_includes (css_display (getComputedStyle pg e)) ''inline''
        \<and> (\<forall>c \<in> set (el_children pg e). calcIsHidden fuel pg c node False = Some True)
      \<longrightarrow> calcIsHidden (Suc fuel) pg e node isDocHostElem = Some True)
   \<and> (el_hidden pg e \<and> str_includes (css_display (getComputedStyle pg e)) ''inline''
        \<and> el_children pg e = before @ child # after
        \<and> (\<forall>c \<in> set before. calcIsHidden fuel pg c node False = Some True)
        \<and> calcIsHidden fuel pg child node False = Some False
      \<longrightarrow> calcIsHidden (Suc fuel) pg e node isDocHostElem = Some False)"
proof (intro conjI impI)
  assume d: "css_display (getComputedStyle pg e) = ''none''"
  show "calcIsHidden (Suc fuel) pg e node isDocHostElem = Some True"
    by (simp add: d Let_def)
next
  assume "el_hidden pg e \<and> \<not> str_includes (css_display (getComputedStyle pg e)) ''inline''"
  then show "calcIsHidden (Suc fuel) pg e node isDocHostElem = Some True"
    by (simp only: hidden_attribute_seems_invisible if_False)
next
  assume h: "el_hidden pg e \<and> str_includes (css_display (getComputedStyle pg e)) ''inline''
        \<and> (\<forall>c \<in> set (el_children pg e). calcIsHidden fuel pg c node False = Some True)"
  then have "anyChildVisible (\<lambda>child. calcIsHidden fuel pg child node False) (el_children pg e) = Some False"
    by (intro anyChildVisible_all_hidden) simp
  with h show "calcIsHidden (Suc fuel) pg e node isDocHostElem = Some True"
    by (simp only: hidden_attribute_seems_invisible if_True option.case not_False_eq_True)
next
  assume h: "el_hidden pg e \<and> str_includes (css_display (getComputedStyle pg e)) ''inline''
        \<and> el_children pg e = before @ child # after
        \<and> (\<forall>c \<in> set before. calcIsHidden fuel pg c node False = Some True)
        \<and> calcIsHidden fuel pg child node False = Some False"
  then have "anyChildVisible (\<lambda>child. calcIsHidden fuel pg child node False) (before @ child # after) = Some True"
    by (intro anyChildVisible_first_visible) simp_all
  with h show "calcIsHidden (Suc fuel) pg e node isDocHostElem = Some False"
    by (simp only: hidden_attribute_seems_invisible if_True option.case not_True_eq_False)
qed

theorem calcIsHidden_display_none_or_hidden_attribute_witness:
  "calcIsHidden (Suc 0) examplePage 12 topNode False = Some True
   \<and> calcIsHidden (Suc 0) examplePage 13 topNode False = Some True
   \<and> calcIsHidden (Suc (Suc 0)) examplePage 14 topNode False = Some True
   \<and> calcIsHidden (Suc (Suc 0)) examplePage 10 topNode False = Some False"
proof -
  have d12: "css_display (getComputedStyle examplePage 12) = ''none''"
    by (simp add: examplePage_def defaultStyle_def)
  have a: "calcIsHidden (Suc 0) examplePage 12 topNode False = Some True"
    using d12 calcIsHidden_display_none_or_hidden_attribute [of examplePage 12 0 topNode False] by blast
  have h13: "el_hidden examplePage 13 \<and> \<not> str_includes (css_display (getComputedStyle examplePage 13)) ''inline''"
    by (simp add: examplePage_def defaultStyle_def)
  have b: "calcIsHidden (Suc 0) examplePage 13 topNode False = Some True"
    using h13 calcIsHidden_display_none_or_hidden_attribute [of examplePage 13 0 topNode False] by blast
  have h14: "el_hidden examplePage 14 \<and> str_includes (css_display (getComputedStyle examplePage 14)) ''inline''"
    by (simp add: examplePage_def defaultStyle_def)
  have k14: "\<forall>c \<in> set (el_children examplePage 14). calcIsHidden (Suc 0) examplePage c topNode False = Some True"
    using a by (simp add: examplePage_def)
  have c: "calcIsHidden (Suc (Suc 0)) examplePage 14 topNode False = Some True"
    using h14 k14 calcIsHidden_display_none_or_hidden_attribute [of examplePage 14 "Suc 0" topNode False] by blast
  have h10: "el_hidden examplePage 10 \<and> str_includes (css_display (getComputedStyle examplePage 10)) ''inline''"
    by (simp add: examplePage_def defaultStyle_def)
  have k10: "el_children examplePage 10 = [] @ 11 # []"
    by (simp add: examplePage_def)
  have v11: "calcIsHidden (Suc 0) examplePage 11 topNode False = Some False"
    by (simp add: examplePage_def blankPage_def defaultStyle_def topNode_def shadowRoot_def
      toLowerCase_def toLowerChar_def isFullyOutsideViewport_def isBuriedInBackground_def
      buriedQueryPoints_def buriedSearchContext_def contains_def Let_def)
  have d: "calcIsHidden (Suc (Suc 0)) examplePage 10 topNode False = Some False"
    using h10 k10 v11
      calcIsHidden_display_none_or_hidden_attribute
        [where pg = examplePage and e = 10 and before = "[]" and child = 11 and after = "[]"
           and fuel = "Suc 0" and node = topNode and isDocHostElem = False]
    by simp
  from a b c d show ?thesis by blast
qed

text \<open>
  The claim as it was stated fails: the \<open>span\<close> 10 of the example page carries the hidden
  attribute, is displayed inline and has a child that is not hidden, and \<open>calcIsHidden\<close>
  returns \<open>false\<close> for it.
\<close>

theorem calcIsHidden_hidden_attribute_counterexample:
  "el_hidden examplePage 10 \<and> calcIsHidden 2 examplePage 10 topNode False = Some False"
  by (simp add: numeral_2_eq_2 examplePage_def blankPage_def defaultStyle_def topNode_def shadowRoot_def
      toLowerCase_def toLowerChar_def isFullyOutsideViewport_def isBuriedInBackground_def
      buriedQueryPoints_def buriedSearchContext_def contains_def Let_def)

section \<open>Properties of element discovery\<close>

subsection \<open>Where the results come from\<close>













subsection \<open>The discovery returns\<close>













subsection \<open>What the discovery reads of the frame tree\<close>












subsection \<open>The entry points\<close>









end
